theory Spec2Isabelle
  imports Main
begin

section \<open>Domain models\<close>

text \<open>
  The TypeScript interfaces of \<^verbatim>\<open>domain/models\<close>. A JavaScript \<^verbatim>\<open>number\<close> used as an
  identifier is modelled as an unbounded \<open>int\<close> (identifiers are small integers, far from
  the range where a double loses precision). A \<^verbatim>\<open>Date\<close> is its time value in milliseconds.
  An optional field (\<^verbatim>\<open>userId?\<close>, \<^verbatim>\<open>updatedAt?\<close>) is an \<open>option\<close>: \<open>None\<close> is
  \<^verbatim>\<open>undefined\<close>.
\<close>

type_synonym date = int

record todo =
  todo_id :: int
  todo_title :: string
  todo_completed :: bool
  todo_userId :: "int option"
  todo_createdAt :: date
  todo_updatedAt :: "date option"

record createTodoInput =
  new_title :: string
  new_completed :: "bool option"
  new_userId :: "int option"

record updateTodoInput =
  upd_id :: int
  upd_title :: "string option"
  upd_completed :: "bool option"
  upd_userId :: "int option"

record user =
  user_id :: int
  user_name :: string
  user_email :: string
  user_createdAt :: date
  user_updatedAt :: "date option"

record createUserInput =
  new_name :: string
  new_email :: string

record updateUserInput =
  updu_id :: int
  updu_name :: "string option"
  updu_email :: "string option"

section \<open>The browser's localStorage\<close>

text \<open>
  The two adapters write under the fixed keys \<^verbatim>\<open>mock_users\<close> and \<^verbatim>\<open>mock_todos\<close>. A slot
  is absent (\<^verbatim>\<open>getItem\<close> gives \<^verbatim>\<open>null\<close>), holds text that \<^verbatim>\<open>JSON.parse\<close> rejects, or holds
  the JSON text of an array, modelled by the array it encodes: dates are written with
  \<^verbatim>\<open>toISOString\<close> and read back with \<^verbatim>\<open>new Date\<close>, which gives the same time value.
  \<^verbatim>\<open>setItem\<close> is taken to succeed.
\<close>

datatype 'a slot = Missing | Malformed | Items "'a list"

record localStorage =
  mock_users :: "user slot"
  mock_todos :: "todo slot"

section \<open>Array helpers\<close>

text \<open>\<^verbatim>\<open>Array.prototype.findIndex\<close>: the first index whose element satisfies the
  predicate; \<open>None\<close> stands for \<^verbatim>\<open>-1\<close>.\<close>

fun findIndex :: "('a \<Rightarrow> bool) \<Rightarrow> 'a list \<Rightarrow> nat option" where
  "findIndex p [] = None"
| "findIndex p (x # xs) =
     (if p x then Some 0 else (case findIndex p xs of None \<Rightarrow> None | Some i \<Rightarrow> Some (Suc i)))"

text \<open>\<^verbatim>\<open>Math.max(...ids)\<close> on a non-empty argument list.\<close>

definition Math_max :: "int \<Rightarrow> int list \<Rightarrow> int" where
  "Math_max i ids = fold max ids i"

section \<open>parseInt\<close>

text \<open>
  \<^verbatim>\<open>parseInt(string)\<close> without a radix, after ECMAScript: leading white space is dropped,
  a sign is read, the prefix \<^verbatim>\<open>0x\<close>/\<^verbatim>\<open>0X\<close> selects radix 16, the longest run of digits
  of the radix is the number, and \<^verbatim>\<open>NaN\<close> (here \<open>None\<close>) is the result when that run is
  empty. The white space recognised here is the ASCII part of the standard's list.
\<close>

definition isWhiteSpace :: "char \<Rightarrow> bool" where
  "isWhiteSpace c =
     (c = CHR '' '' \<or> c = CHR 0x09 \<or> c = CHR 0x0A \<or> c = CHR 0x0B \<or> c = CHR 0x0C \<or> c = CHR 0x0D)"

definition digitValue :: "char \<Rightarrow> nat option" where
  "digitValue c =
     (let k = (of_char c :: nat) in
      if 48 \<le> k \<and> k \<le> 57 then Some (k - 48)
      else if 97 \<le> k \<and> k \<le> 122 then Some (k - 87)
      else if 65 \<le> k \<and> k \<le> 90 then Some (k - 55)
      else None)"

definition isRadixDigit :: "nat \<Rightarrow> char \<Rightarrow> bool" where
  "isRadixDigit R c = (case digitValue c of None \<Rightarrow> False | Some d \<Rightarrow> d < R)"

definition mathInt :: "nat \<Rightarrow> string \<Rightarrow> nat" where
  "mathInt R Z = foldl (\<lambda>a c. a * R + (case digitValue c of None \<Rightarrow> 0 | Some d \<Rightarrow> d)) 0 Z"

definition parseInt :: "string \<Rightarrow> int option" where
  "parseInt inputString =
     (let S = dropWhile isWhiteSpace inputString;
          sign = (if S \<noteq> [] \<and> hd S = CHR ''-'' then - 1 else (1::int));
          S1 = (if S \<noteq> [] \<and> (hd S = CHR ''+'' \<or> hd S = CHR ''-'') then tl S else S);
          hex = (2 \<le> length S1 \<and> (take 2 S1 = ''0x'' \<or> take 2 S1 = ''0X''));
          R = (if hex then 16 else 10);
          S2 = (if hex then drop 2 S1 else S1);
          Z = takeWhile (isRadixDigit R) S2
      in if Z = [] then None else Some (sign * int (mathInt R Z)))"

text \<open>The characters \<^verbatim>\<open>0\<close> to \<^verbatim>\<open>9\<close>, of which a decimal numeral is made.\<close>

definition isDecimalDigit :: "char \<Rightarrow> bool" where
  "isDecimalDigit c = (48 \<le> (of_char c :: nat) \<and> (of_char c :: nat) \<le> 57)"

text \<open>The decimal numeral of a natural number: its digits in base ten, most significant
  first, with no leading zero (\<^verbatim>\<open>0\<close> itself is the one digit).\<close>

fun toDecimal :: "nat \<Rightarrow> string" where
  "toDecimal n =
     (if n < 10 then [char_of (48 + n)]
      else toDecimal (n div 10) @ [char_of (48 + n mod 10)])"

section \<open>The simulated task adapter (MockTodoRepository)\<close>

record mockTodoRepository =
  todos :: "todo list"
  todos_nextId :: int

text \<open>An identifier argument of type \<^verbatim>\<open>string | number\<close>.\<close>

datatype ident = IdStr string | IdNum int

text \<open>\<^verbatim>\<open>typeof id === 'string' ? parseInt(id) : id\<close>; \<open>None\<close> is \<^verbatim>\<open>NaN\<close>, which is
  equal to no identifier.\<close>

definition numericId :: "ident \<Rightarrow> int option" where
  "numericId i = (case i of IdStr s \<Rightarrow> parseInt s | IdNum n \<Rightarrow> Some n)"

definition todo_saveToLocalStorage :: "mockTodoRepository \<Rightarrow> localStorage \<Rightarrow> localStorage" where
  "todo_saveToLocalStorage r ls = ls\<lparr>mock_todos := Items (todos r)\<rparr>"

definition todo_loadFromLocalStorage :: "mockTodoRepository \<Rightarrow> localStorage \<Rightarrow> mockTodoRepository" where
  "todo_loadFromLocalStorage r ls =
     (case mock_todos ls of
        Missing \<Rightarrow> r
      | Items parsedData \<Rightarrow> r\<lparr>todos := parsedData\<rparr>
      | Malformed \<Rightarrow> r\<lparr>todos := []\<rparr>)"

text \<open>The constructor: fields start as \<^verbatim>\<open>todos = []\<close>, \<^verbatim>\<open>nextId = 1\<close>; the persisted
  collection is loaded; the initial entities are used only when nothing was loaded.\<close>

definition MockTodoRepository :: "todo list \<Rightarrow> localStorage \<Rightarrow> mockTodoRepository \<times> localStorage" where
  "MockTodoRepository initialTodos ls =
     (let r = todo_loadFromLocalStorage \<lparr>todos = [], todos_nextId = 1\<rparr> ls in
      if length (todos r) = 0 then
        (if length initialTodos > 0
         then (let r' = r\<lparr>todos := initialTodos\<rparr> in (r', todo_saveToLocalStorage r' ls))
         else (r, ls))
      else (r, ls))"

definition mock_getTodos :: "mockTodoRepository \<Rightarrow> todo list" where
  "mock_getTodos r = todos r"

definition mock_getTodoById :: "ident \<Rightarrow> mockTodoRepository \<Rightarrow> todo option" where
  "mock_getTodoById i r = find (\<lambda>t. Some (todo_id t) = numericId i) (todos r)"

text \<open>Every mutating operation takes the clock reading \<open>now\<close> that \<^verbatim>\<open>new Date()\<close> gives,
  and returns its result with the repository and the storage after the call.\<close>

definition mock_createTodo ::
  "date \<Rightarrow> createTodoInput \<Rightarrow> mockTodoRepository \<times> localStorage
     \<Rightarrow> todo \<times> mockTodoRepository \<times> localStorage" where
  "mock_createTodo now input = (\<lambda>(r, ls).
     (let newTodo = \<lparr>todo_id = todos_nextId r,
                      todo_title = new_title input,
                      todo_completed = (case new_completed input of None \<Rightarrow> False | Some b \<Rightarrow> b),
                      todo_userId = new_userId input,
                      todo_createdAt = now,
                      todo_updatedAt = None\<rparr>;
          r' = r\<lparr>todos := todos r @ [newTodo], todos_nextId := todos_nextId r + 1\<rparr>
      in (newTodo, r', todo_saveToLocalStorage r' ls)))"

text \<open>In \<^verbatim>\<open>updateTodo\<close> the title is spread in under \<^verbatim>\<open>input.title && ...\<close>, so an empty
  title is treated as no title; the other two fields are tested against \<^verbatim>\<open>undefined\<close>.\<close>

definition mock_updateTodo ::
  "date \<Rightarrow> updateTodoInput \<Rightarrow> mockTodoRepository \<times> localStorage
     \<Rightarrow> todo option \<times> mockTodoRepository \<times> localStorage" where
  "mock_updateTodo now input = (\<lambda>(r, ls).
     (case findIndex (\<lambda>t. todo_id t = upd_id input) (todos r) of
        None \<Rightarrow> (None, r, ls)
      | Some index \<Rightarrow>
          (let old = todos r ! index;
               updatedTodo = old\<lparr>
                 todo_title := (case upd_title input of
                                  None \<Rightarrow> todo_title old
                                | Some s \<Rightarrow> if s = [] then todo_title old else s),
                 todo_completed := (case upd_completed input of
                                      None \<Rightarrow> todo_completed old | Some b \<Rightarrow> b),
                 todo_userId := (case upd_userId input of
                                   None \<Rightarrow> todo_userId old | Some u \<Rightarrow> Some u),
                 todo_updatedAt := Some now\<rparr>;
               r' = r\<lparr>todos := (todos r)[index := updatedTodo]\<rparr>
           in (Some updatedTodo, r', todo_saveToLocalStorage r' ls))))"

definition mock_deleteTodo ::
  "ident \<Rightarrow> mockTodoRepository \<times> localStorage \<Rightarrow> bool \<times> mockTodoRepository \<times> localStorage" where
  "mock_deleteTodo i = (\<lambda>(r, ls).
     (let initialLength = length (todos r);
          r' = r\<lparr>todos := filter (\<lambda>t. Some (todo_id t) \<noteq> numericId i) (todos r)\<rparr>;
          deleted = (length (todos r') \<noteq> initialLength)
      in (deleted, r', if deleted then todo_saveToLocalStorage r' ls else ls)))"

definition mock_toggleComplete ::
  "date \<Rightarrow> ident \<Rightarrow> mockTodoRepository \<times> localStorage
     \<Rightarrow> todo option \<times> mockTodoRepository \<times> localStorage" where
  "mock_toggleComplete now i = (\<lambda>(r, ls).
     (case findIndex (\<lambda>t. Some (todo_id t) = numericId i) (todos r) of
        None \<Rightarrow> (None, r, ls)
      | Some index \<Rightarrow>
          (let old = todos r ! index;
               updatedTodo = old\<lparr>todo_completed := \<not> todo_completed old,
                                 todo_updatedAt := Some now\<rparr>;
               r' = r\<lparr>todos := (todos r)[index := updatedTodo]\<rparr>
           in (Some updatedTodo, r', todo_saveToLocalStorage r' ls))))"

section \<open>The simulated user adapter (MockUserRepository)\<close>

record mockUserRepository =
  users :: "user list"
  users_nextId :: int

definition user_saveToLocalStorage :: "mockUserRepository \<Rightarrow> localStorage \<Rightarrow> localStorage" where
  "user_saveToLocalStorage r ls = ls\<lparr>mock_users := Items (users r)\<rparr>"

text \<open>Unlike the task adapter, loading re-seeds the counter from the largest persisted id.\<close>

definition user_loadFromLocalStorage :: "mockUserRepository \<Rightarrow> localStorage \<Rightarrow> mockUserRepository" where
  "user_loadFromLocalStorage r ls =
     (case mock_users ls of
        Missing \<Rightarrow> r
      | Items parsed \<Rightarrow>
          (let r' = r\<lparr>users := parsed\<rparr> in
           (case map user_id (users r') of
              [] \<Rightarrow> r'
            | i # ids \<Rightarrow> r'\<lparr>users_nextId := Math_max i ids + 1\<rparr>))
      | Malformed \<Rightarrow> r\<lparr>users := []\<rparr>)"

definition MockUserRepository :: "user list \<Rightarrow> localStorage \<Rightarrow> mockUserRepository \<times> localStorage" where
  "MockUserRepository initialUsers ls =
     (let r = user_loadFromLocalStorage \<lparr>users = [], users_nextId = 1\<rparr> ls in
      if length (users r) = 0 then
        (if length initialUsers > 0
         then (let r' = r\<lparr>users := initialUsers\<rparr> in (r', user_saveToLocalStorage r' ls))
         else (r, ls))
      else (r, ls))"

definition mock_getUsers :: "mockUserRepository \<Rightarrow> user list" where
  "mock_getUsers r = users r"

definition mock_getUserById :: "int \<Rightarrow> mockUserRepository \<Rightarrow> user option" where
  "mock_getUserById i r = find (\<lambda>u. user_id u = i) (users r)"

definition mock_createUser ::
  "date \<Rightarrow> createUserInput \<Rightarrow> mockUserRepository \<times> localStorage
     \<Rightarrow> user \<times> mockUserRepository \<times> localStorage" where
  "mock_createUser now input = (\<lambda>(r, ls).
     (let newUser = \<lparr>user_id = users_nextId r,
                      user_name = new_name input,
                      user_email = new_email input,
                      user_createdAt = now,
                      user_updatedAt = None\<rparr>;
          r' = r\<lparr>users := users r @ [newUser], users_nextId := users_nextId r + 1\<rparr>
      in (newUser, r', user_saveToLocalStorage r' ls)))"

definition mock_updateUser ::
  "date \<Rightarrow> updateUserInput \<Rightarrow> mockUserRepository \<times> localStorage
     \<Rightarrow> user option \<times> mockUserRepository \<times> localStorage" where
  "mock_updateUser now input = (\<lambda>(r, ls).
     (case findIndex (\<lambda>u. user_id u = updu_id input) (users r) of
        None \<Rightarrow> (None, r, ls)
      | Some index \<Rightarrow>
          (let old = users r ! index;
               updatedUser = old\<lparr>
                 user_name := (case updu_name input of None \<Rightarrow> user_name old | Some s \<Rightarrow> s),
                 user_email := (case updu_email input of None \<Rightarrow> user_email old | Some s \<Rightarrow> s),
                 user_updatedAt := Some now\<rparr>;
               r' = r\<lparr>users := (users r)[index := updatedUser]\<rparr>
           in (Some updatedUser, r', user_saveToLocalStorage r' ls))))"

definition mock_deleteUser ::
  "int \<Rightarrow> mockUserRepository \<times> localStorage \<Rightarrow> bool \<times> mockUserRepository \<times> localStorage" where
  "mock_deleteUser i = (\<lambda>(r, ls).
     (let initialLength = length (users r);
          r' = r\<lparr>users := filter (\<lambda>u. user_id u \<noteq> i) (users r)\<rparr>;
          deleted = (initialLength > length (users r'))
      in (deleted, r', if deleted then user_saveToLocalStorage r' ls else ls)))"

section \<open>Sequences of create operations and the two adapters side by side\<close>

text \<open>The content of a slot as the constructor sees it: nothing, unless an array was
  persisted.\<close>

fun slot_items :: "'a slot \<Rightarrow> 'a list" where
  "slot_items Missing = []"
| "slot_items Malformed = []"
| "slot_items (Items xs) = xs"

text \<open>A caller that issues one create call after another, each with its own clock
  reading, and collects the entities returned.\<close>

fun createTodos ::
  "(date \<times> createTodoInput) list \<Rightarrow> mockTodoRepository \<times> localStorage
     \<Rightarrow> todo list \<times> mockTodoRepository \<times> localStorage" where
  "createTodos [] s = ([], s)"
| "createTodos ((now, input) # rest) s =
     (case mock_createTodo now input s of (t, s') \<Rightarrow>
        (case createTodos rest s' of (ts, s'') \<Rightarrow> (t # ts, s'')))"

fun createUsers ::
  "(date \<times> createUserInput) list \<Rightarrow> mockUserRepository \<times> localStorage
     \<Rightarrow> user list \<times> mockUserRepository \<times> localStorage" where
  "createUsers [] s = ([], s)"
| "createUsers ((now, input) # rest) s =
     (case mock_createUser now input s of (u, s') \<Rightarrow>
        (case createUsers rest s' of (us, s'') \<Rightarrow> (u # us, s'')))"

text \<open>Both simulated adapters live in one page and share its localStorage.\<close>

record world =
  userRepository :: mockUserRepository
  todoRepository :: mockTodoRepository
  storage :: localStorage

definition world_deleteUser :: "int \<Rightarrow> world \<Rightarrow> bool \<times> world" where
  "world_deleteUser i w =
     (case mock_deleteUser i (userRepository w, storage w) of
        (deleted, ur, ls) \<Rightarrow> (deleted, w\<lparr>userRepository := ur, storage := ls\<rparr>))"

section \<open>The remote (GraphQL) adapters\<close>

text \<open>
  What a \<^verbatim>\<open>throw\<close> carries: an \<^verbatim>\<open>Error\<close> instance with its message, or any other value.
  Reading a field of \<^verbatim>\<open>data\<close> when \<^verbatim>\<open>data\<close> is \<^verbatim>\<open>null\<close> throws a \<^verbatim>\<open>TypeError\<close>, an
  \<^verbatim>\<open>Error\<close> instance whose message depends on the engine.
\<close>

datatype thrown = Error string | NonError

definition TypeError :: thrown where
  "TypeError = Error ''Cannot read properties of null''"

text \<open>
  One call of the Apollo client (\<^verbatim>\<open>client.query\<close> or \<^verbatim>\<open>client.mutate\<close>): the promise
  rejects, or resolves without \<^verbatim>\<open>data\<close>, or resolves with \<^verbatim>\<open>data\<close> whose field for the
  operation is a payload or \<^verbatim>\<open>null\<close>. The transport is a function from the request's
  variables to such a response; every behaviour of the remote service is some such function.
\<close>

datatype 'a response = Rejects thrown | NoData | is_Data: Data "'a option"

text \<open>\<^verbatim>\<open>const { data } = await this.client.query(...)\<close> followed by the read of the
  operation's field of \<^verbatim>\<open>data\<close>.\<close>

definition await_field :: "'a response \<Rightarrow> thrown + 'a option" where
  "await_field resp =
     (case resp of Rejects e \<Rightarrow> Inl e | NoData \<Rightarrow> Inl TypeError | Data f \<Rightarrow> Inr f)"

text \<open>\<^verbatim>\<open>try { body } catch (error) { handler }\<close>.\<close>

definition try_catch :: "thrown + 'a \<Rightarrow> (thrown \<Rightarrow> thrown + 'a) \<Rightarrow> thrown + 'a" where
  "try_catch body handler = (case body of Inl error \<Rightarrow> handler error | Inr v \<Rightarrow> Inr v)"

text \<open>The payloads carry their dates as text; \<^verbatim>\<open>new Date(text)\<close> is a parameter
  \<open>new_Date\<close> of every operation that converts them. An \<^verbatim>\<open>updatedAt\<close> that is missing
  or the empty text is falsy and becomes \<^verbatim>\<open>undefined\<close>.\<close>

record todoPayload =
  p_id :: int
  p_title :: string
  p_completed :: bool
  p_userId :: "int option"
  p_createdAt :: string
  p_updatedAt :: "string option"

record userPayload =
  q_id :: int
  q_name :: string
  q_email :: string
  q_createdAt :: string
  q_updatedAt :: "string option"

definition updatedAt_of :: "(string \<Rightarrow> date) \<Rightarrow> string option \<Rightarrow> date option" where
  "updatedAt_of new_Date v =
     (case v of None \<Rightarrow> None | Some s \<Rightarrow> if s = [] then None else Some (new_Date s))"

definition todo_of :: "(string \<Rightarrow> date) \<Rightarrow> todoPayload \<Rightarrow> todo" where
  "todo_of new_Date p =
     \<lparr>todo_id = p_id p, todo_title = p_title p, todo_completed = p_completed p,
      todo_userId = p_userId p, todo_createdAt = new_Date (p_createdAt p),
      todo_updatedAt = updatedAt_of new_Date (p_updatedAt p)\<rparr>"

definition user_of :: "(string \<Rightarrow> date) \<Rightarrow> userPayload \<Rightarrow> user" where
  "user_of new_Date p =
     \<lparr>user_id = q_id p, user_name = q_name p, user_email = q_email p,
      user_createdAt = new_Date (q_createdAt p),
      user_updatedAt = updatedAt_of new_Date (q_updatedAt p)\<rparr>"

subsection \<open>GraphQLTodoRepository\<close>

definition gql_getTodoById ::
  "(string \<Rightarrow> date) \<Rightarrow> (string \<Rightarrow> todoPayload response) \<Rightarrow> string \<Rightarrow> thrown + todo option" where
  "gql_getTodoById new_Date client i =
     try_catch
       (case await_field (client i) of
          Inl e \<Rightarrow> Inl e
        | Inr None \<Rightarrow> Inr None
        | Inr (Some p) \<Rightarrow> Inr (Some (todo_of new_Date p)))
       (\<lambda>error. Inr None)"

definition gql_createTodo ::
  "(string \<Rightarrow> date) \<Rightarrow> (createTodoInput \<Rightarrow> todoPayload response) \<Rightarrow> createTodoInput
     \<Rightarrow> thrown + todo" where
  "gql_createTodo new_Date client input =
     try_catch
       (case await_field (client input) of
          Inl e \<Rightarrow> Inl e
        | Inr None \<Rightarrow> Inl (Error ''No se pudo crear el todo'')
        | Inr (Some p) \<Rightarrow> Inr (todo_of new_Date p))
       (\<lambda>error. Inl error)"

definition gql_updateTodo ::
  "(string \<Rightarrow> date) \<Rightarrow> (updateTodoInput \<Rightarrow> todoPayload response) \<Rightarrow> updateTodoInput
     \<Rightarrow> thrown + todo option" where
  "gql_updateTodo new_Date client input =
     try_catch
       (case await_field (client input) of
          Inl e \<Rightarrow> Inl e
        | Inr None \<Rightarrow> Inr None
        | Inr (Some p) \<Rightarrow> Inr (Some (todo_of new_Date p)))
       (\<lambda>error. Inr None)"

text \<open>\<^verbatim>\<open>deleteTodo\<close> returns the field as the server sent it, which may be \<^verbatim>\<open>null\<close>.\<close>

definition gql_deleteTodo :: "(string \<Rightarrow> bool response) \<Rightarrow> string \<Rightarrow> thrown + bool option" where
  "gql_deleteTodo client i =
     try_catch
       (case await_field (client i) of Inl e \<Rightarrow> Inl e | Inr f \<Rightarrow> Inr f)
       (\<lambda>error. Inr (Some False))"

definition gql_toggleComplete ::
  "(string \<Rightarrow> date) \<Rightarrow> (string \<Rightarrow> todoPayload response) \<Rightarrow> string \<Rightarrow> thrown + todo option" where
  "gql_toggleComplete new_Date client i =
     try_catch
       (case await_field (client i) of
          Inl e \<Rightarrow> Inl e
        | Inr None \<Rightarrow> Inr None
        | Inr (Some p) \<Rightarrow> Inr (Some (todo_of new_Date p)))
       (\<lambda>error. Inr None)"

subsection \<open>GraphQLUserRepository\<close>

text \<open>No method of this class has a \<^verbatim>\<open>try\<close>: whatever the client throws reaches the
  caller.\<close>

definition gql_getUserById ::
  "(string \<Rightarrow> date) \<Rightarrow> (int \<Rightarrow> userPayload response) \<Rightarrow> int \<Rightarrow> thrown + user option" where
  "gql_getUserById new_Date client i =
     (case await_field (client i) of
        Inl e \<Rightarrow> Inl e
      | Inr None \<Rightarrow> Inr None
      | Inr (Some p) \<Rightarrow> Inr (Some (user_of new_Date p)))"

definition gql_createUser ::
  "(string \<Rightarrow> date) \<Rightarrow> (createUserInput \<Rightarrow> userPayload response) \<Rightarrow> createUserInput
     \<Rightarrow> thrown + user" where
  "gql_createUser new_Date client input =
     (case await_field (client input) of
        Inl e \<Rightarrow> Inl e
      | Inr None \<Rightarrow> Inl TypeError
      | Inr (Some p) \<Rightarrow> Inr (user_of new_Date p))"

definition gql_updateUser ::
  "(string \<Rightarrow> date) \<Rightarrow> (updateUserInput \<Rightarrow> userPayload response) \<Rightarrow> updateUserInput
     \<Rightarrow> thrown + user option" where
  "gql_updateUser new_Date client input =
     (case await_field (client input) of
        Inl e \<Rightarrow> Inl e
      | Inr None \<Rightarrow> Inr None
      | Inr (Some p) \<Rightarrow> Inr (Some (user_of new_Date p)))"

definition gql_deleteUser :: "(int \<Rightarrow> bool response) \<Rightarrow> int \<Rightarrow> thrown + bool option" where
  "gql_deleteUser client i =
     (case await_field (client i) of Inl e \<Rightarrow> Inl e | Inr f \<Rightarrow> Inr f)"

section \<open>The state stores\<close>

text \<open>
  A store action reads the repository from the state, calls \<^verbatim>\<open>set\<close> once before the
  repository call and at most once after it. The awaited repository call is a parameter of
  the action: \<open>Inr v\<close> when the promise resolves with \<open>v\<close>, \<open>Inl e\<close> when it rejects
  with \<open>e\<close>. Actions are taken one at a time.
\<close>

datatype DataSource = graphql | mock

definition errorMessage :: "thrown \<Rightarrow> string \<Rightarrow> string" where
  "errorMessage error fallback = (case error of Error message \<Rightarrow> message | NonError \<Rightarrow> fallback)"

subsection \<open>useTodoStore\<close>

record todoState =
  store_todos :: "todo list"
  todo_isLoading :: bool
  todo_error :: "string option"
  todo_dataSource :: DataSource

definition todoState_init :: todoState where
  "todoState_init =
     \<lparr>store_todos = [], todo_isLoading = False, todo_error = None, todo_dataSource = mock\<rparr>"

text \<open>\<^verbatim>\<open>set({ isLoading: true, error: null })\<close>, the first step of every action.\<close>

definition todo_start :: "todoState \<Rightarrow> todoState" where
  "todo_start st = st\<lparr>todo_isLoading := True, todo_error := None\<rparr>"

definition todo_fail :: "thrown \<Rightarrow> string \<Rightarrow> todoState \<Rightarrow> todoState" where
  "todo_fail error fallback st =
     st\<lparr>todo_error := Some (errorMessage error fallback), todo_isLoading := False\<rparr>"

definition store_fetchTodos :: "thrown + todo list \<Rightarrow> todoState \<Rightarrow> todoState" where
  "store_fetchTodos result st =
     (let st1 = todo_start st in
      case result of
        Inr ts \<Rightarrow> st1\<lparr>store_todos := ts, todo_isLoading := False\<rparr>
      | Inl error \<Rightarrow> todo_fail error ''Error desconocido al cargar las tareas'' st1)"

definition store_addTodo :: "thrown + todo \<Rightarrow> todoState \<Rightarrow> todoState" where
  "store_addTodo result st =
     (let st1 = todo_start st in
      case result of
        Inr newTodo \<Rightarrow> st1\<lparr>store_todos := store_todos st1 @ [newTodo], todo_isLoading := False\<rparr>
      | Inl error \<Rightarrow> todo_fail error ''Error desconocido al crear la tarea'' st1)"

definition store_updateTodo :: "thrown + todo option \<Rightarrow> todoState \<Rightarrow> todoState" where
  "store_updateTodo result st =
     (let st1 = todo_start st in
      case result of
        Inr (Some updatedTodo) \<Rightarrow>
          st1\<lparr>store_todos :=
                 map (\<lambda>t. if todo_id t = todo_id updatedTodo then updatedTodo else t) (store_todos st1),
               todo_isLoading := False\<rparr>
      | Inr None \<Rightarrow> st1
      | Inl error \<Rightarrow> todo_fail error ''Error desconocido al actualizar la tarea'' st1)"

text \<open>The list is filtered with \<^verbatim>\<open>todo.id !== id\<close>, a strict comparison of a number with
  the argument as it was passed.\<close>

definition store_deleteTodo :: "ident \<Rightarrow> thrown + bool \<Rightarrow> todoState \<Rightarrow> todoState" where
  "store_deleteTodo i result st =
     (let st1 = todo_start st in
      case result of
        Inr success \<Rightarrow>
          if success
          then st1\<lparr>store_todos := filter (\<lambda>t. IdNum (todo_id t) \<noteq> i) (store_todos st1),
                    todo_isLoading := False\<rparr>
          else st1
      | Inl error \<Rightarrow> todo_fail error ''Error desconocido al eliminar la tarea'' st1)"

definition store_toggleTodoComplete :: "thrown + todo option \<Rightarrow> todoState \<Rightarrow> todoState" where
  "store_toggleTodoComplete result st =
     (let st1 = todo_start st in
      case result of
        Inr (Some updatedTodo) \<Rightarrow>
          st1\<lparr>store_todos :=
                 map (\<lambda>t. if todo_id t = todo_id updatedTodo then updatedTodo else t) (store_todos st1),
               todo_isLoading := False\<rparr>
      | Inr None \<Rightarrow> st1
      | Inl error \<Rightarrow> todo_fail error ''Error desconocido al cambiar el estado de la tarea'' st1)"

subsection \<open>useUserStore\<close>

record userState =
  store_users :: "user list"
  selectedUser :: "user option"
  user_isLoading :: bool
  user_error :: "string option"
  user_dataSource :: DataSource

definition userState_init :: userState where
  "userState_init =
     \<lparr>store_users = [], selectedUser = None, user_isLoading = False, user_error = None,
      user_dataSource = mock\<rparr>"

definition user_start :: "userState \<Rightarrow> userState" where
  "user_start st = st\<lparr>user_isLoading := True, user_error := None\<rparr>"

definition user_fail :: "thrown \<Rightarrow> string \<Rightarrow> userState \<Rightarrow> userState" where
  "user_fail error fallback st =
     st\<lparr>user_error := Some (errorMessage error fallback), user_isLoading := False\<rparr>"

definition store_fetchUsers :: "thrown + user list \<Rightarrow> userState \<Rightarrow> userState" where
  "store_fetchUsers result st =
     (let st1 = user_start st in
      case result of
        Inr us \<Rightarrow> st1\<lparr>store_users := us, user_isLoading := False\<rparr>
      | Inl error \<Rightarrow> user_fail error ''Error desconocido al cargar los usuarios'' st1)"

text \<open>The user store's actions that return a value give it with the state; \<open>Inl\<close> is an
  error thrown on to the caller.\<close>

definition store_getUserById :: "thrown + user option \<Rightarrow> userState \<Rightarrow> (thrown + user option) \<times> userState" where
  "store_getUserById result st =
     (let st1 = user_start st in
      case result of
        Inr u \<Rightarrow> (Inr u, st1\<lparr>user_isLoading := False\<rparr>)
      | Inl error \<Rightarrow> (Inr None, user_fail error ''Error desconocido al obtener el usuario'' st1))"

definition store_addUser :: "thrown + user \<Rightarrow> userState \<Rightarrow> (thrown + user) \<times> userState" where
  "store_addUser result st =
     (let st1 = user_start st in
      case result of
        Inr newUser \<Rightarrow>
          (Inr newUser, st1\<lparr>store_users := store_users st1 @ [newUser], user_isLoading := False\<rparr>)
      | Inl error \<Rightarrow> (Inl error, user_fail error ''Error desconocido al crear el usuario'' st1))"

definition store_updateUser :: "thrown + user option \<Rightarrow> userState \<Rightarrow> (thrown + user option) \<times> userState" where
  "store_updateUser result st =
     (let st1 = user_start st in
      case result of
        Inr (Some updatedUser) \<Rightarrow>
          (Inr (Some updatedUser),
           st1\<lparr>store_users :=
                  map (\<lambda>u. if user_id u = user_id updatedUser then updatedUser else u) (store_users st1),
                selectedUser :=
                  (case selectedUser st1 of
                     None \<Rightarrow> None
                   | Some sel \<Rightarrow> if user_id sel = user_id updatedUser then Some updatedUser else Some sel),
                user_isLoading := False\<rparr>)
      | Inr None \<Rightarrow> (Inr None, st1)
      | Inl error \<Rightarrow> (Inl error, user_fail error ''Error desconocido al actualizar el usuario'' st1))"

definition store_deleteUser :: "int \<Rightarrow> thrown + bool \<Rightarrow> userState \<Rightarrow> userState" where
  "store_deleteUser i result st =
     (let st1 = user_start st in
      case result of
        Inr success \<Rightarrow>
          if success
          then st1\<lparr>store_users := filter (\<lambda>u. user_id u \<noteq> i) (store_users st1),
                    selectedUser :=
                      (case selectedUser st1 of
                         None \<Rightarrow> None
                       | Some sel \<Rightarrow> if user_id sel = i then None else Some sel),
                    user_isLoading := False\<rparr>
          else st1
      | Inl error \<Rightarrow> user_fail error ''Error desconocido al eliminar el usuario'' st1)"

section \<open>Sample data\<close>

definition storage_empty :: localStorage where
  "storage_empty = \<lparr>mock_users = Missing, mock_todos = Missing\<rparr>"

definition todo_T1 :: todo where
  "todo_T1 = \<lparr>todo_id = 1, todo_title = ''T1'', todo_completed = False, todo_userId = Some 1,
              todo_createdAt = 1000, todo_updatedAt = None\<rparr>"

definition todo_T2 :: todo where
  "todo_T2 = \<lparr>todo_id = 2, todo_title = ''T2'', todo_completed = True, todo_userId = None,
              todo_createdAt = 2000, todo_updatedAt = Some 2500\<rparr>"

definition user_A :: user where
  "user_A = \<lparr>user_id = 1, user_name = ''A'', user_email = ''a@x.com'',
             user_createdAt = 500, user_updatedAt = None\<rparr>"

definition user_B :: user where
  "user_B = \<lparr>user_id = 2, user_name = ''B'', user_email = ''b@x.com'',
             user_createdAt = 600, user_updatedAt = None\<rparr>"

definition storage_sample :: localStorage where
  "storage_sample = \<lparr>mock_users = Items [user_A, user_B], mock_todos = Items [todo_T1, todo_T2]\<rparr>"

definition input_T :: createTodoInput where
  "input_T = \<lparr>new_title = ''T'', new_completed = None, new_userId = Some 1\<rparr>"

definition input_U :: createUserInput where
  "input_U = \<lparr>new_name = ''C'', new_email = ''c@x.com''\<rparr>"

definition repo_sample :: mockTodoRepository where
  "repo_sample = \<lparr>todos = [todo_T1, todo_T2], todos_nextId = 3\<rparr>"

definition urepo_sample :: mockUserRepository where
  "urepo_sample = \<lparr>users = [user_A, user_B], users_nextId = 3\<rparr>"

definition update_blank :: updateTodoInput where
  "update_blank = \<lparr>upd_id = 1, upd_title = Some [], upd_completed = Some True, upd_userId = None\<rparr>"

definition update_T1 :: updateTodoInput where
  "update_T1 = \<lparr>upd_id = 1, upd_title = Some ''T1 bis'', upd_completed = None, upd_userId = Some 2\<rparr>"

definition update_missing :: updateTodoInput where
  "update_missing = \<lparr>upd_id = 7, upd_title = Some ''X'', upd_completed = None, upd_userId = None\<rparr>"

definition uupdate_missing :: updateUserInput where
  "uupdate_missing = \<lparr>updu_id = 7, updu_name = Some ''X'', updu_email = None\<rparr>"

definition world_sample :: world where
  "world_sample =
     \<lparr>userRepository = urepo_sample, todoRepository = repo_sample, storage = storage_sample\<rparr>"

text \<open>A transport that is down: every request is rejected with a network error.\<close>

definition network_error :: thrown where
  "network_error = Error ''Network error''"

definition client_down :: "'req \<Rightarrow> 'a response" where
  "client_down request = Rejects network_error"

text \<open>A stand-in for the date parser in the examples.\<close>

definition new_Date_sample :: "string \<Rightarrow> date" where
  "new_Date_sample s = int (length s)"

section \<open>Facts about the array helpers\<close>

lemma findIndex_None: "(findIndex p xs = None) = (\<forall>x\<in>set xs. \<not> p x)"
  by (induction xs) (auto split: option.splits)

lemma findIndex_Some:
  "findIndex p xs = Some i \<Longrightarrow> i < length xs \<and> p (xs ! i) \<and> find p xs = Some (xs ! i)"
  by (induction xs arbitrary: i) (auto split: option.splits if_splits)

lemma findIndex_find:
  "find p xs = Some x \<Longrightarrow> \<exists>i. findIndex p xs = Some i \<and> i < length xs \<and> xs ! i = x"
  by (induction xs) (auto split: option.splits if_splits)

lemma findIndex_update_same:
  "findIndex p xs = Some i \<Longrightarrow> p y \<Longrightarrow> findIndex p (xs[i := y]) = Some i"
  by (induction xs arbitrary: i) (auto split: option.splits if_splits)

lemma filter_id_conv_notin:
  "n \<notin> f ` set xs \<Longrightarrow> filter (\<lambda>x. f x \<noteq> n) xs = xs"
  by (induction xs) auto

lemma filter_Some_notin:
  "m \<notin> Some ` f ` set xs \<Longrightarrow> filter (\<lambda>t. Some (f t) \<noteq> m) xs = xs"
  by (induction xs) auto

lemma length_filter_distinct:
  "distinct (map f xs) \<Longrightarrow> n \<in> f ` set xs \<Longrightarrow> Suc (length (filter (\<lambda>x. f x \<noteq> n) xs)) = length xs"
proof (induction xs)
  case Nil
  then show ?case by simp
next
  case (Cons x xs)
  show ?case
  proof (cases "f x = n")
    case True
    with Cons.prems have "n \<notin> f ` set xs" by auto
    then have "filter (\<lambda>x. f x \<noteq> n) xs = xs" by (rule filter_id_conv_notin)
    with True show ?thesis by simp
  next
    case False
    with Cons show ?thesis by auto
  qed
qed

lemma Math_max_ge: "x \<in> set (i # ids) \<Longrightarrow> x \<le> Math_max i ids"
proof -
  assume "x \<in> set (i # ids)"
  then have "x \<le> Max (set (i # ids))" by (intro Max_ge) auto
  then show ?thesis by (simp only: Math_max_def Max.set_eq_fold)
qed

section \<open>Updating an entity that does not exist\<close>

text \<open>
  C6. In both simulated adapters, \<^verbatim>\<open>update\<close> with an id that no entity of the collection
  has returns null and leaves the adapter as it was: the collection, the counter and the
  persisted slot are those before the call. The operation has no failing branch.
\<close>

theorem update_unknown_id:
  "(upd_id input \<notin> todo_id ` set (todos r) \<longrightarrow>
      mock_updateTodo now input (r, ls) = (None, r, ls)) \<and>
   (updu_id uinput \<notin> user_id ` set (users ur) \<longrightarrow>
      mock_updateUser now uinput (ur, ls) = (None, ur, ls))"
proof -
  have "findIndex (\<lambda>t. todo_id t = upd_id input) (todos r) = None"
    if "upd_id input \<notin> todo_id ` set (todos r)"
    using that by (force simp: findIndex_None)
  moreover have "findIndex (\<lambda>u. user_id u = updu_id uinput) (users ur) = None"
    if "updu_id uinput \<notin> user_id ` set (users ur)"
    using that by (force simp: findIndex_None)
  ultimately show ?thesis
    by (simp add: mock_updateTodo_def mock_updateUser_def)
qed

theorem update_unknown_id_witness:
  "upd_id update_missing \<notin> todo_id ` set (todos repo_sample) \<and>
   mock_updateTodo 3000 update_missing (repo_sample, storage_sample) =
     (None, repo_sample, storage_sample) \<and>
   updu_id uupdate_missing \<notin> user_id ` set (users urepo_sample) \<and>
   mock_updateUser 3000 uupdate_missing (urepo_sample, storage_sample) =
     (None, urepo_sample, storage_sample)"
proof -
  have a: "upd_id update_missing \<notin> todo_id ` set (todos repo_sample)"
    by (simp add: update_missing_def repo_sample_def todo_T1_def todo_T2_def)
  have b: "updu_id uupdate_missing \<notin> user_id ` set (users urepo_sample)"
    by (simp add: uupdate_missing_def urepo_sample_def user_A_def user_B_def)
  show ?thesis
    using a b
      update_unknown_id [where input = update_missing and r = repo_sample and now = 3000
        and ls = storage_sample and uinput = uupdate_missing and ur = urepo_sample]
    by simp
qed

section \<open>Deleting\<close>

text \<open>
  C7. In a simulated adapter whose ids are unique: \<^verbatim>\<open>delete\<close> with an id that is not in
  the collection (or a text that is no number) returns false and leaves the adapter and
  the storage unchanged; \<^verbatim>\<open>delete\<close> with an id of the collection returns true, the
  collection that remains is the old one without the entity of that id, it is one shorter,
  and it is what is persisted.
\<close>

theorem delete_contract:
  assumes "distinct (map todo_id (todos r))" and "distinct (map user_id (users ur))"
  shows "(numericId i \<notin> Some ` todo_id ` set (todos r) \<longrightarrow>
            mock_deleteTodo i (r, ls) = (False, r, ls)) \<and>
         (numericId j = Some n \<and> n \<in> todo_id ` set (todos r) \<longrightarrow>
            mock_deleteTodo j (r, ls) =
              (True, r\<lparr>todos := filter (\<lambda>t. todo_id t \<noteq> n) (todos r)\<rparr>,
               ls\<lparr>mock_todos := Items (filter (\<lambda>t. todo_id t \<noteq> n) (todos r))\<rparr>) \<and>
            Suc (length (filter (\<lambda>t. todo_id t \<noteq> n) (todos r))) = length (todos r)) \<and>
         (k \<notin> user_id ` set (users ur) \<longrightarrow>
            mock_deleteUser k (ur, ls) = (False, ur, ls)) \<and>
         (m \<in> user_id ` set (users ur) \<longrightarrow>
            mock_deleteUser m (ur, ls) =
              (True, ur\<lparr>users := filter (\<lambda>u. user_id u \<noteq> m) (users ur)\<rparr>,
               ls\<lparr>mock_users := Items (filter (\<lambda>u. user_id u \<noteq> m) (users ur))\<rparr>) \<and>
            Suc (length (filter (\<lambda>u. user_id u \<noteq> m) (users ur))) = length (users ur))"
proof (intro conjI impI)
  assume "numericId i \<notin> Some ` todo_id ` set (todos r)"
  then have "filter (\<lambda>t. Some (todo_id t) \<noteq> numericId i) (todos r) = todos r"
    by (rule filter_Some_notin)
  then show "mock_deleteTodo i (r, ls) = (False, r, ls)"
    by (simp add: mock_deleteTodo_def)
next
  assume h: "numericId j = Some n \<and> n \<in> todo_id ` set (todos r)"
  then have len: "Suc (length (filter (\<lambda>t. todo_id t \<noteq> n) (todos r))) = length (todos r)"
    using assms(1) by (intro length_filter_distinct) auto
  then show "Suc (length (filter (\<lambda>t. todo_id t \<noteq> n) (todos r))) = length (todos r)" .
  from len have "length (filter (\<lambda>t. todo_id t \<noteq> n) (todos r)) \<noteq> length (todos r)"
    by linarith
  with h show "mock_deleteTodo j (r, ls) =
      (True, r\<lparr>todos := filter (\<lambda>t. todo_id t \<noteq> n) (todos r)\<rparr>,
       ls\<lparr>mock_todos := Items (filter (\<lambda>t. todo_id t \<noteq> n) (todos r))\<rparr>)"
    by (simp add: mock_deleteTodo_def todo_saveToLocalStorage_def)
next
  assume "k \<notin> user_id ` set (users ur)"
  then have "filter (\<lambda>u. user_id u \<noteq> k) (users ur) = users ur"
    by (rule filter_id_conv_notin)
  then show "mock_deleteUser k (ur, ls) = (False, ur, ls)"
    by (simp add: mock_deleteUser_def)
next
  assume h: "m \<in> user_id ` set (users ur)"
  then have len: "Suc (length (filter (\<lambda>u. user_id u \<noteq> m) (users ur))) = length (users ur)"
    using assms(2) by (intro length_filter_distinct)
  then show "Suc (length (filter (\<lambda>u. user_id u \<noteq> m) (users ur))) = length (users ur)" .
  from len have "length (filter (\<lambda>u. user_id u \<noteq> m) (users ur)) < length (users ur)"
    by linarith
  then show "mock_deleteUser m (ur, ls) =
      (True, ur\<lparr>users := filter (\<lambda>u. user_id u \<noteq> m) (users ur)\<rparr>,
       ls\<lparr>mock_users := Items (filter (\<lambda>u. user_id u \<noteq> m) (users ur))\<rparr>)"
    by (simp add: mock_deleteUser_def user_saveToLocalStorage_def)
qed

theorem delete_contract_witness:
  "distinct (map todo_id (todos repo_sample)) \<and> distinct (map user_id (users urepo_sample)) \<and>
   mock_deleteTodo (IdNum 7) (repo_sample, storage_sample) = (False, repo_sample, storage_sample) \<and>
   mock_deleteTodo (IdNum 2) (repo_sample, storage_sample) =
     (True, \<lparr>todos = [todo_T1], todos_nextId = 3\<rparr>,
      \<lparr>mock_users = Items [user_A, user_B], mock_todos = Items [todo_T1]\<rparr>) \<and>
   mock_deleteUser 7 (urepo_sample, storage_sample) = (False, urepo_sample, storage_sample) \<and>
   mock_deleteUser 1 (urepo_sample, storage_sample) =
     (True, \<lparr>users = [user_B], users_nextId = 3\<rparr>,
      \<lparr>mock_users = Items [user_B], mock_todos = Items [todo_T1, todo_T2]\<rparr>)"
proof -
  have d: "distinct (map todo_id (todos repo_sample))"
      "distinct (map user_id (users urepo_sample))"
    by (simp_all add: repo_sample_def urepo_sample_def todo_T1_def todo_T2_def
        user_A_def user_B_def)
  have i: "numericId (IdNum 7) \<notin> Some ` todo_id ` set (todos repo_sample)"
      "numericId (IdNum 2) = Some 2 \<and> 2 \<in> todo_id ` set (todos repo_sample)"
      "7 \<notin> user_id ` set (users urepo_sample)" "1 \<in> user_id ` set (users urepo_sample)"
    by (simp_all add: numericId_def repo_sample_def urepo_sample_def todo_T1_def todo_T2_def
        user_A_def user_B_def)
  show ?thesis
    using d i
      delete_contract [OF d, where i = "IdNum 7" and j = "IdNum 2" and n = 2
        and ls = storage_sample and k = 7 and m = 1]
    by (simp add: repo_sample_def urepo_sample_def storage_sample_def todo_T1_def todo_T2_def
        user_A_def user_B_def)
qed

section \<open>Toggling twice\<close>

text \<open>
  C5. When the simulated task adapter has a task for the id, two calls of
  \<^verbatim>\<open>toggleComplete\<close> with that id both return a task; the first has the completed flag
  negated and \<^verbatim>\<open>updatedAt\<close> set to the time of the first call, the second has the flag
  of the task before the first call and \<^verbatim>\<open>updatedAt\<close> set to the time of the second
  call; the second is the task the adapter then holds for the id, and the completed flags
  of the whole collection are those before the first call.
\<close>

theorem toggleComplete_twice:
  assumes "mock_getTodoById i r = Some t"
  shows "\<exists>r1 ls1 r2 ls2.
           mock_toggleComplete now1 i (r, ls) =
             (Some (t\<lparr>todo_completed := \<not> todo_completed t, todo_updatedAt := Some now1\<rparr>), r1, ls1) \<and>
           mock_toggleComplete now2 i (r1, ls1) =
             (Some (t\<lparr>todo_updatedAt := Some now2\<rparr>), r2, ls2) \<and>
           mock_getTodoById i r2 = Some (t\<lparr>todo_updatedAt := Some now2\<rparr>) \<and>
           map todo_completed (todos r2) = map todo_completed (todos r)"
proof -
  let ?p = "\<lambda>t. Some (todo_id t) = numericId i"
  from assms obtain k where k: "findIndex ?p (todos r) = Some k" "k < length (todos r)"
      "todos r ! k = t"
    unfolding mock_getTodoById_def by (blast dest: findIndex_find)
  from k(1) have pt: "?p t" using findIndex_Some k(3) by fastforce
  let ?t1 = "t\<lparr>todo_completed := \<not> todo_completed t, todo_updatedAt := Some now1\<rparr>"
  let ?t2 = "t\<lparr>todo_updatedAt := Some now2\<rparr>"
  let ?r1 = "r\<lparr>todos := (todos r)[k := ?t1]\<rparr>"
  let ?r2 = "r\<lparr>todos := (todos r)[k := ?t2]\<rparr>"
  have s1: "mock_toggleComplete now1 i (r, ls) = (Some ?t1, ?r1, todo_saveToLocalStorage ?r1 ls)"
    using k by (simp add: mock_toggleComplete_def Let_def)
  have k1: "findIndex ?p (todos ?r1) = Some k"
    using findIndex_update_same [OF k(1), of ?t1] pt by simp
  have s2: "mock_toggleComplete now2 i (?r1, todo_saveToLocalStorage ?r1 ls) =
      (Some ?t2, ?r2, todo_saveToLocalStorage ?r2 (todo_saveToLocalStorage ?r1 ls))"
    using k1 k(2) by (simp add: mock_toggleComplete_def Let_def)
  have k2: "findIndex ?p (todos ?r2) = Some k"
    using findIndex_update_same [OF k(1), of ?t2] pt by simp
  have g: "mock_getTodoById i ?r2 = Some ?t2"
    using findIndex_Some [OF k2] k(2) by (simp add: mock_getTodoById_def)
  have m: "map todo_completed (todos ?r2) = map todo_completed (todos r)"
    using k(2,3) by (simp add: map_update list_update_same_conv)
  from s1 s2 g m show ?thesis by blast
qed

theorem toggleComplete_twice_witness:
  "mock_getTodoById (IdNum 1) repo_sample = Some todo_T1 \<and>
   (\<exists>r1 ls1 r2 ls2.
      mock_toggleComplete 3000 (IdNum 1) (repo_sample, storage_sample) =
        (Some (todo_T1\<lparr>todo_completed := \<not> todo_completed todo_T1, todo_updatedAt := Some 3000\<rparr>),
         r1, ls1) \<and>
      mock_toggleComplete 4000 (IdNum 1) (r1, ls1) =
        (Some (todo_T1\<lparr>todo_updatedAt := Some 4000\<rparr>), r2, ls2) \<and>
      mock_getTodoById (IdNum 1) r2 = Some (todo_T1\<lparr>todo_updatedAt := Some 4000\<rparr>) \<and>
      map todo_completed (todos r2) = map todo_completed (todos repo_sample))"
proof -
  have g: "mock_getTodoById (IdNum 1) repo_sample = Some todo_T1"
    by (simp add: mock_getTodoById_def numericId_def repo_sample_def todo_T1_def todo_T2_def)
  show ?thesis
    using g toggleComplete_twice [OF g, where ?now1.0 = 3000 and ls = storage_sample
        and ?now2.0 = 4000] by simp
qed

section \<open>Creating on a fresh adapter\<close>

lemma createTodos_ids:
  "map todo_id (fst (createTodos reqs (r, ls))) =
     map (\<lambda>j. todos_nextId r + int j) [0..<length reqs]"
proof (induction reqs arbitrary: r ls)
  case Nil
  then show ?case by simp
next
  case (Cons q reqs)
  obtain now input where q: "q = (now, input)" by (cases q)
  let ?r' = "r\<lparr>todos := todos r @ [\<lparr>todo_id = todos_nextId r,
                      todo_title = new_title input,
                      todo_completed = (case new_completed input of None \<Rightarrow> False | Some b \<Rightarrow> b),
                      todo_userId = new_userId input,
                      todo_createdAt = now,
                      todo_updatedAt = None\<rparr>], todos_nextId := todos_nextId r + 1\<rparr>"
  have "map todo_id (fst (createTodos (q # reqs) (r, ls))) =
        todos_nextId r # map todo_id (fst (createTodos reqs (?r', todo_saveToLocalStorage ?r' ls)))"
    by (simp add: q mock_createTodo_def Let_def split: prod.splits)
  also have "\<dots> = todos_nextId r # map (\<lambda>j. todos_nextId r + 1 + int j) [0..<length reqs]"
    by (simp add: Cons.IH)
  also have "\<dots> = map (\<lambda>j. todos_nextId r + int j) [0..<length (q # reqs)]"
    by (simp add: upt_rec [of 0] map_Suc_upt [symmetric] del: upt_Suc)
  finally show ?case .
qed

lemma createUsers_ids:
  "map user_id (fst (createUsers reqs (r, ls))) =
     map (\<lambda>j. users_nextId r + int j) [0..<length reqs]"
proof (induction reqs arbitrary: r ls)
  case Nil
  then show ?case by simp
next
  case (Cons q reqs)
  obtain now input where q: "q = (now, input)" by (cases q)
  let ?r' = "r\<lparr>users := users r @ [\<lparr>user_id = users_nextId r,
                      user_name = new_name input,
                      user_email = new_email input,
                      user_createdAt = now,
                      user_updatedAt = None\<rparr>], users_nextId := users_nextId r + 1\<rparr>"
  have "map user_id (fst (createUsers (q # reqs) (r, ls))) =
        users_nextId r # map user_id (fst (createUsers reqs (?r', user_saveToLocalStorage ?r' ls)))"
    by (simp add: q mock_createUser_def Let_def split: prod.splits)
  also have "\<dots> = users_nextId r # map (\<lambda>j. users_nextId r + 1 + int j) [0..<length reqs]"
    by (simp add: Cons.IH)
  also have "\<dots> = map (\<lambda>j. users_nextId r + int j) [0..<length (q # reqs)]"
    by (simp add: upt_rec [of 0] map_Suc_upt [symmetric] del: upt_Suc)
  finally show ?case .
qed

lemma createTodos_dates:
  "map todo_createdAt (fst (createTodos reqs s)) = map fst reqs \<and>
   map todo_updatedAt (fst (createTodos reqs s)) = replicate (length reqs) None"
  by (induction reqs s rule: createTodos.induct)
     (auto simp: mock_createTodo_def Let_def split: prod.splits)

lemma createUsers_dates:
  "map user_createdAt (fst (createUsers reqs s)) = map fst reqs \<and>
   map user_updatedAt (fst (createUsers reqs s)) = replicate (length reqs) None"
  by (induction reqs s rule: createUsers.induct)
     (auto simp: mock_createUser_def Let_def split: prod.splits)

lemma int_upto_conv: "map (\<lambda>j. 1 + int j) [0..<n] = [1..int n]"
proof (induction n)
  case 0
  then show ?case by simp
next
  case (Suc n)
  have "[1..int (Suc n)] = [1..int n] @ [int n + 1]"
    using upto_rec2 [of 1 "int n + 1"] by (simp add: add.commute)
  with Suc show ?case by simp
qed

lemma fresh_todo:
  "slot_items (mock_todos ls) = [] \<Longrightarrow>
   MockTodoRepository [] ls = (\<lparr>todos = [], todos_nextId = 1\<rparr>, ls)"
  by (cases "mock_todos ls")
     (simp_all add: MockTodoRepository_def todo_loadFromLocalStorage_def)

lemma fresh_user:
  "slot_items (mock_users ls) = [] \<Longrightarrow>
   MockUserRepository [] ls = (\<lparr>users = [], users_nextId = 1\<rparr>, ls)"
  by (cases "mock_users ls")
     (simp_all add: MockUserRepository_def user_loadFromLocalStorage_def)

text \<open>
  C8. A simulated adapter constructed with no initial entities over a slot that holds no
  entity (absent, unreadable or an empty array) is fresh. Whatever the sequence of create
  calls made on it, the ids of the entities returned are 1, 2, 3, ... in the order of the
  calls, each entity has \<^verbatim>\<open>createdAt\<close> equal to the clock reading of its call, and none
  has an \<^verbatim>\<open>updatedAt\<close>. This holds for the task adapter and for the user adapter.
\<close>

theorem fresh_creates_count_from_one:
  assumes "slot_items (mock_todos ls) = []" and "slot_items (mock_users ls') = []"
  shows "map todo_id (fst (createTodos treqs (MockTodoRepository [] ls))) = [1..int (length treqs)] \<and>
         map todo_createdAt (fst (createTodos treqs (MockTodoRepository [] ls))) = map fst treqs \<and>
         map todo_updatedAt (fst (createTodos treqs (MockTodoRepository [] ls))) =
           replicate (length treqs) None \<and>
         map user_id (fst (createUsers ureqs (MockUserRepository [] ls'))) = [1..int (length ureqs)] \<and>
         map user_createdAt (fst (createUsers ureqs (MockUserRepository [] ls'))) = map fst ureqs \<and>
         map user_updatedAt (fst (createUsers ureqs (MockUserRepository [] ls'))) =
           replicate (length ureqs) None"
proof -
  have "map todo_id (fst (createTodos treqs (MockTodoRepository [] ls))) = [1..int (length treqs)]"
    by (simp add: fresh_todo [OF assms(1)] createTodos_ids int_upto_conv)
  moreover
  have "map user_id (fst (createUsers ureqs (MockUserRepository [] ls'))) = [1..int (length ureqs)]"
    by (simp add: fresh_user [OF assms(2)] createUsers_ids int_upto_conv)
  ultimately show ?thesis
    using createTodos_dates [of treqs "MockTodoRepository [] ls"]
      createUsers_dates [of ureqs "MockUserRepository [] ls'"]
    by simp
qed

theorem fresh_creates_count_from_one_witness:
  "slot_items (mock_todos storage_empty) = [] \<and> slot_items (mock_users storage_empty) = [] \<and>
   map todo_id (fst (createTodos [(10, input_T), (20, input_T), (30, input_T)]
     (MockTodoRepository [] storage_empty))) = [1, 2, 3] \<and>
   map todo_createdAt (fst (createTodos [(10, input_T), (20, input_T), (30, input_T)]
     (MockTodoRepository [] storage_empty))) = [10, 20, 30] \<and>
   map todo_updatedAt (fst (createTodos [(10, input_T), (20, input_T), (30, input_T)]
     (MockTodoRepository [] storage_empty))) = [None, None, None] \<and>
   map user_id (fst (createUsers [(10, input_U), (20, input_U)]
     (MockUserRepository [] storage_empty))) = [1, 2] \<and>
   map user_createdAt (fst (createUsers [(10, input_U), (20, input_U)]
     (MockUserRepository [] storage_empty))) = [10, 20] \<and>
   map user_updatedAt (fst (createUsers [(10, input_U), (20, input_U)]
     (MockUserRepository [] storage_empty))) = [None, None]"
proof -
  have e: "slot_items (mock_todos storage_empty) = []" "slot_items (mock_users storage_empty) = []"
    by (simp_all add: storage_empty_def)
  have u: "[1..3] = [1, 2, 3::int]" "[1..2] = [1, 2::int]"
    by (simp_all add: upto.simps)
  show ?thesis
    using e u
      fresh_creates_count_from_one [OF e,
        where treqs = "[(10, input_T), (20, input_T), (30, input_T)]"
        and ureqs = "[(10, input_U), (20, input_U)]"]
    by (simp add: numeral_3_eq_3)
qed

section \<open>String identifiers\<close>

declare toDecimal.simps [simp del]

lemma isDecimalDigit_char_of: "d < 10 \<Longrightarrow> isDecimalDigit (char_of (48 + d :: nat))"
  by (simp add: isDecimalDigit_def)

lemma digitValue_char_of: "d < 10 \<Longrightarrow> digitValue (char_of (48 + d :: nat)) = Some d"
  by (simp add: digitValue_def)

lemma toDecimal_digits: "c \<in> set (toDecimal n) \<Longrightarrow> isDecimalDigit c"
proof (induction n rule: toDecimal.induct)
  case (1 n)
  show ?case
  proof (cases "n < 10")
    case True
    with "1.prems" show ?thesis
      by (subst (asm) toDecimal.simps) (simp add: isDecimalDigit_char_of)
  next
    case False
    with "1.prems" have "c \<in> set (toDecimal (n div 10)) \<or> c = char_of (48 + n mod 10)"
      by (subst (asm) toDecimal.simps) auto
    with False "1.IH" show ?thesis
      by (auto simp: isDecimalDigit_char_of)
  qed
qed

lemma toDecimal_nonempty: "toDecimal n \<noteq> []"
  by (subst toDecimal.simps) simp

lemma mathInt_snoc:
  "mathInt R (Z @ [c]) = mathInt R Z * R + (case digitValue c of None \<Rightarrow> 0 | Some d \<Rightarrow> d)"
  by (simp add: mathInt_def)

lemma mathInt_toDecimal: "mathInt 10 (toDecimal n) = n"
proof (induction n rule: toDecimal.induct)
  case (1 n)
  show ?case
  proof (cases "n < 10")
    case True
    then show ?thesis
      by (subst toDecimal.simps) (simp add: mathInt_def digitValue_char_of)
  next
    case False
    then have "mathInt 10 (toDecimal n) = mathInt 10 (toDecimal (n div 10)) * 10 + n mod 10"
      by (subst toDecimal.simps) (simp add: mathInt_snoc digitValue_char_of)
    with False "1.IH" show ?thesis by simp
  qed
qed

lemma isDecimalDigit_facts:
  assumes "isDecimalDigit c"
  shows "\<not> isWhiteSpace c" "c \<noteq> CHR ''-''" "c \<noteq> CHR ''+''" "c \<noteq> CHR ''x''" "c \<noteq> CHR ''X''"
    "isRadixDigit 10 c"
  using assms by (auto simp: isDecimalDigit_def isWhiteSpace_def isRadixDigit_def digitValue_def)

lemma take2_second: "take 2 s = [a, b] \<Longrightarrow> b \<in> set s"
  by (metis in_set_takeD list.set_intros(1) list.set_intros(2))

text \<open>\<^verbatim>\<open>parseInt\<close> reads the decimal numeral of \<open>n\<close> back as \<open>n\<close>.\<close>

lemma parseInt_toDecimal: "parseInt (toDecimal n) = Some (int n)"
proof -
  let ?s = "toDecimal n"
  have ne: "?s \<noteq> []" by (rule toDecimal_nonempty)
  then have hd: "isDecimalDigit (hd ?s)" using toDecimal_digits [of "hd ?s" n] by simp
  have S: "dropWhile isWhiteSpace ?s = ?s"
    using ne hd isDecimalDigit_facts(1) by (cases ?s) auto
  have sign: "(if ?s \<noteq> [] \<and> hd ?s = CHR ''-'' then - 1 else (1::int)) = 1"
    using isDecimalDigit_facts(2) [OF hd] by simp
  have S1: "(if ?s \<noteq> [] \<and> (hd ?s = CHR ''+'' \<or> hd ?s = CHR ''-'') then tl ?s else ?s) = ?s"
    using isDecimalDigit_facts(2,3) [OF hd] by simp
  have x: "take 2 ?s \<noteq> [CHR ''0'', CHR ''x'']"
    using take2_second [of ?s "CHR ''0''" "CHR ''x''"] toDecimal_digits [of "CHR ''x''" n]
      isDecimalDigit_facts(4) [of "CHR ''x''"] by blast
  have X: "take 2 ?s \<noteq> [CHR ''0'', CHR ''X'']"
    using take2_second [of ?s "CHR ''0''" "CHR ''X''"] toDecimal_digits [of "CHR ''X''" n]
      isDecimalDigit_facts(5) [of "CHR ''X''"] by blast
  have hex: "(2 \<le> length ?s \<and> (take 2 ?s = ''0x'' \<or> take 2 ?s = ''0X'')) = False"
    using x X by simp
  have Z: "takeWhile (isRadixDigit 10) ?s = ?s"
    by (simp add: toDecimal_digits isDecimalDigit_facts(6))
  show ?thesis
    unfolding parseInt_def Let_def S sign S1 hex if_False Z
    by (simp add: ne mathInt_toDecimal)
qed

text \<open>
  C10. In the simulated task adapter, the id-taking operations normalise a string id by
  integer parsing: the decimal numeral of a natural number \<open>n\<close>, passed as a string,
  is resolved to the number \<open>n\<close>. So \<^verbatim>\<open>getTodoById\<close> with that string finds the first
  task whose id is \<open>n\<close>; \<^verbatim>\<open>deleteTodo\<close> keeps exactly the tasks whose id is not
  \<open>n\<close>, returns whether any was removed and persists the rest if so;
  \<^verbatim>\<open>toggleComplete\<close> negates the flag of the first task whose id is \<open>n\<close>, stamps
  it and persists the collection, or returns null when there is none. In each of the
  three operations the result, the repository and the storage are those of the call with
  the number \<open>n\<close>.
\<close>

theorem string_id_normalised:
  "numericId (IdStr (toDecimal n)) = Some (int n) \<and>
   mock_getTodoById (IdStr (toDecimal n)) r = find (\<lambda>t. todo_id t = int n) (todos r) \<and>
   mock_deleteTodo (IdStr (toDecimal n)) (r, ls) =
     (length (filter (\<lambda>t. todo_id t \<noteq> int n) (todos r)) \<noteq> length (todos r),
      r\<lparr>todos := filter (\<lambda>t. todo_id t \<noteq> int n) (todos r)\<rparr>,
      if length (filter (\<lambda>t. todo_id t \<noteq> int n) (todos r)) \<noteq> length (todos r)
      then ls\<lparr>mock_todos := Items (filter (\<lambda>t. todo_id t \<noteq> int n) (todos r))\<rparr>
      else ls) \<and>
   mock_toggleComplete now (IdStr (toDecimal n)) (r, ls) =
     (case findIndex (\<lambda>t. todo_id t = int n) (todos r) of
        None \<Rightarrow> (None, r, ls)
      | Some index \<Rightarrow>
          (Some ((todos r ! index)\<lparr>todo_completed := \<not> todo_completed (todos r ! index),
                                     todo_updatedAt := Some now\<rparr>),
           r\<lparr>todos := (todos r)[index :=
                 (todos r ! index)\<lparr>todo_completed := \<not> todo_completed (todos r ! index),
                                    todo_updatedAt := Some now\<rparr>]\<rparr>,
           ls\<lparr>mock_todos := Items ((todos r)[index :=
                 (todos r ! index)\<lparr>todo_completed := \<not> todo_completed (todos r ! index),
                                    todo_updatedAt := Some now\<rparr>])\<rparr>)) \<and>
   mock_getTodoById (IdStr (toDecimal n)) r = mock_getTodoById (IdNum (int n)) r \<and>
   mock_deleteTodo (IdStr (toDecimal n)) s = mock_deleteTodo (IdNum (int n)) s \<and>
   mock_toggleComplete now (IdStr (toDecimal n)) s = mock_toggleComplete now (IdNum (int n)) s"
proof -
  have str: "numericId (IdStr (toDecimal n)) = Some (int n)"
    by (simp add: numericId_def parseInt_toDecimal)
  have num: "numericId (IdNum (int n)) = Some (int n)"
    by (simp add: numericId_def)
  have get: "mock_getTodoById (IdStr (toDecimal n)) r = find (\<lambda>t. todo_id t = int n) (todos r)"
    by (simp add: mock_getTodoById_def str)
  have del: "mock_deleteTodo (IdStr (toDecimal n)) (r, ls) =
     (length (filter (\<lambda>t. todo_id t \<noteq> int n) (todos r)) \<noteq> length (todos r),
      r\<lparr>todos := filter (\<lambda>t. todo_id t \<noteq> int n) (todos r)\<rparr>,
      if length (filter (\<lambda>t. todo_id t \<noteq> int n) (todos r)) \<noteq> length (todos r)
      then ls\<lparr>mock_todos := Items (filter (\<lambda>t. todo_id t \<noteq> int n) (todos r))\<rparr>
      else ls)"
    by (simp add: mock_deleteTodo_def str todo_saveToLocalStorage_def Let_def)
  have tog: "mock_toggleComplete now (IdStr (toDecimal n)) (r, ls) =
     (case findIndex (\<lambda>t. todo_id t = int n) (todos r) of
        None \<Rightarrow> (None, r, ls)
      | Some index \<Rightarrow>
          (Some ((todos r ! index)\<lparr>todo_completed := \<not> todo_completed (todos r ! index),
                                     todo_updatedAt := Some now\<rparr>),
           r\<lparr>todos := (todos r)[index :=
                 (todos r ! index)\<lparr>todo_completed := \<not> todo_completed (todos r ! index),
                                    todo_updatedAt := Some now\<rparr>]\<rparr>,
           ls\<lparr>mock_todos := Items ((todos r)[index :=
                 (todos r ! index)\<lparr>todo_completed := \<not> todo_completed (todos r ! index),
                                    todo_updatedAt := Some now\<rparr>])\<rparr>))"
    by (simp add: mock_toggleComplete_def str todo_saveToLocalStorage_def Let_def
        split: option.splits)
  have same: "mock_getTodoById (IdStr (toDecimal n)) r = mock_getTodoById (IdNum (int n)) r"
      "mock_deleteTodo (IdStr (toDecimal n)) s = mock_deleteTodo (IdNum (int n)) s"
      "mock_toggleComplete now (IdStr (toDecimal n)) s =
         mock_toggleComplete now (IdNum (int n)) s"
    by (simp_all add: mock_getTodoById_def mock_deleteTodo_def mock_toggleComplete_def str num)
  from str get del tog same show ?thesis by blast
qed

theorem string_id_normalised_witness:
  "toDecimal 2 = ''2'' \<and> toDecimal 120 = ''120'' \<and>
   numericId (IdStr ''2'') = Some 2 \<and> numericId (IdStr ''120'') = Some 120 \<and>
   mock_getTodoById (IdStr ''2'') repo_sample = Some todo_T2 \<and>
   mock_getTodoById (IdStr ''120'') repo_sample = None \<and>
   mock_deleteTodo (IdStr ''2'') (repo_sample, storage_sample) =
     (True, \<lparr>todos = [todo_T1], todos_nextId = 3\<rparr>,
      \<lparr>mock_users = Items [user_A, user_B], mock_todos = Items [todo_T1]\<rparr>) \<and>
   mock_toggleComplete 3000 (IdStr ''2'') (repo_sample, storage_sample) =
     (Some (todo_T2\<lparr>todo_completed := False, todo_updatedAt := Some 3000\<rparr>),
      \<lparr>todos = [todo_T1, todo_T2\<lparr>todo_completed := False, todo_updatedAt := Some 3000\<rparr>],
       todos_nextId = 3\<rparr>,
      \<lparr>mock_users = Items [user_A, user_B],
       mock_todos = Items [todo_T1, todo_T2\<lparr>todo_completed := False, todo_updatedAt := Some 3000\<rparr>]\<rparr>) \<and>
   mock_getTodoById (IdStr ''2'') repo_sample = mock_getTodoById (IdNum 2) repo_sample \<and>
   mock_deleteTodo (IdStr ''2'') (repo_sample, storage_sample) =
     mock_deleteTodo (IdNum 2) (repo_sample, storage_sample) \<and>
   mock_toggleComplete 3000 (IdStr ''2'') (repo_sample, storage_sample) =
     mock_toggleComplete 3000 (IdNum 2) (repo_sample, storage_sample)"
proof -
  have d: "toDecimal 2 = ''2''"
    by (subst toDecimal.simps) (simp add: char_of_eq_iff)
  have "toDecimal 12 = ''12''"
    by (subst toDecimal.simps, subst toDecimal.simps) (simp add: char_of_eq_iff)
  then have d': "toDecimal 120 = ''120''"
    by (subst toDecimal.simps) (simp add: char_of_eq_iff)
  note two = string_id_normalised [where n = 2 and r = repo_sample and ls = storage_sample
      and now = 3000 and s = "(repo_sample, storage_sample)"]
  note big = string_id_normalised [where n = 120 and r = repo_sample and ls = storage_sample
      and now = 3000 and s = "(repo_sample, storage_sample)"]
  have g: "mock_getTodoById (IdStr ''2'') repo_sample = Some todo_T2"
      "mock_getTodoById (IdStr ''120'') repo_sample = None"
    using two big by (simp_all add: d d' repo_sample_def todo_T1_def todo_T2_def)
  have del: "mock_deleteTodo (IdStr ''2'') (repo_sample, storage_sample) =
     (True, \<lparr>todos = [todo_T1], todos_nextId = 3\<rparr>,
      \<lparr>mock_users = Items [user_A, user_B], mock_todos = Items [todo_T1]\<rparr>)"
    using two by (simp add: d repo_sample_def storage_sample_def todo_T1_def todo_T2_def)
  have tog: "mock_toggleComplete 3000 (IdStr ''2'') (repo_sample, storage_sample) =
     (Some (todo_T2\<lparr>todo_completed := False, todo_updatedAt := Some 3000\<rparr>),
      \<lparr>todos = [todo_T1, todo_T2\<lparr>todo_completed := False, todo_updatedAt := Some 3000\<rparr>],
       todos_nextId = 3\<rparr>,
      \<lparr>mock_users = Items [user_A, user_B],
       mock_todos = Items [todo_T1, todo_T2\<lparr>todo_completed := False, todo_updatedAt := Some 3000\<rparr>]\<rparr>)"
    using two by (simp add: d repo_sample_def storage_sample_def todo_T1_def todo_T2_def)
  have n: "numericId (IdStr ''2'') = Some 2" "numericId (IdStr ''120'') = Some 120"
    using two [THEN conjunct1] big [THEN conjunct1] by (simp_all add: d d')
  note rest = two [THEN conjunct2, THEN conjunct2, THEN conjunct2, THEN conjunct2]
  have s1: "mock_getTodoById (IdStr ''2'') repo_sample = mock_getTodoById (IdNum 2) repo_sample"
    using rest [THEN conjunct1] by (simp add: d)
  have s2: "mock_deleteTodo (IdStr ''2'') (repo_sample, storage_sample) =
      mock_deleteTodo (IdNum 2) (repo_sample, storage_sample)"
    using rest [THEN conjunct2, THEN conjunct1] by (simp add: d)
  have s3: "mock_toggleComplete 3000 (IdStr ''2'') (repo_sample, storage_sample) =
      mock_toggleComplete 3000 (IdNum 2) (repo_sample, storage_sample)"
    using rest [THEN conjunct2, THEN conjunct2] by (simp add: d)
  show ?thesis
    by (intro conjI d d' n g del tog s1 s2 s3)
qed

section \<open>Deleting a user and the tasks\<close>

lemma MockTodoRepository_reads_todos_only:
  "mock_todos ls = mock_todos ls' \<Longrightarrow>
   fst (MockTodoRepository init ls) = fst (MockTodoRepository init ls')"
  by (simp add: MockTodoRepository_def todo_loadFromLocalStorage_def Let_def)

lemma mock_deleteUser_frame: "mock_todos (snd (snd (mock_deleteUser i (ur, ls)))) = mock_todos ls"
  by (simp add: mock_deleteUser_def user_saveToLocalStorage_def Let_def)

text \<open>
  C9. Whatever the state of the two simulated adapters and the storage they share,
  deleting a user leaves the task adapter as it was: its collection (so every task, with
  the \<^verbatim>\<open>userId\<close> it had) and its counter are unchanged, the persisted task slot is
  unchanged, and a task adapter constructed afterwards from the storage is the one that
  would have been constructed before.
\<close>

theorem delete_user_keeps_tasks:
  "todoRepository (snd (world_deleteUser i w)) = todoRepository w \<and>
   mock_getTodos (todoRepository (snd (world_deleteUser i w))) = mock_getTodos (todoRepository w) \<and>
   mock_todos (storage (snd (world_deleteUser i w))) = mock_todos (storage w) \<and>
   fst (MockTodoRepository init (storage (snd (world_deleteUser i w)))) =
     fst (MockTodoRepository init (storage w))"
proof -
  obtain d ur ls where m: "mock_deleteUser i (userRepository w, storage w) = (d, ur, ls)"
    by (cases "mock_deleteUser i (userRepository w, storage w)")
  then have w': "snd (world_deleteUser i w) = w\<lparr>userRepository := ur, storage := ls\<rparr>"
    by (simp add: world_deleteUser_def)
  have ls: "mock_todos ls = mock_todos (storage w)"
    using mock_deleteUser_frame [of i "userRepository w" "storage w"] m by simp
  then have "fst (MockTodoRepository init ls) = fst (MockTodoRepository init (storage w))"
    by (rule MockTodoRepository_reads_todos_only)
  with w' ls show ?thesis by simp
qed

theorem delete_user_keeps_tasks_witness:
  "fst (world_deleteUser 1 world_sample) = True \<and>
   users (userRepository (snd (world_deleteUser 1 world_sample))) = [user_B] \<and>
   todo_userId todo_T1 = Some 1 \<and>
   mock_getTodos (todoRepository (snd (world_deleteUser 1 world_sample))) = [todo_T1, todo_T2] \<and>
   mock_todos (storage (snd (world_deleteUser 1 world_sample))) = Items [todo_T1, todo_T2] \<and>
   todos (fst (MockTodoRepository [] (storage (snd (world_deleteUser 1 world_sample))))) =
     [todo_T1, todo_T2]"
proof -
  have a: "fst (world_deleteUser 1 world_sample) = True"
      "users (userRepository (snd (world_deleteUser 1 world_sample))) = [user_B]"
    by (simp_all add: world_deleteUser_def mock_deleteUser_def world_sample_def urepo_sample_def
        user_A_def user_B_def Let_def)
  have b: "todo_userId todo_T1 = Some 1"
    by (simp add: todo_T1_def)
  have c: "mock_getTodos (todoRepository world_sample) = [todo_T1, todo_T2]"
      "mock_todos (storage world_sample) = Items [todo_T1, todo_T2]"
      "todos (fst (MockTodoRepository [] (storage world_sample))) = [todo_T1, todo_T2]"
    by (simp_all add: world_sample_def repo_sample_def storage_sample_def mock_getTodos_def
        MockTodoRepository_def todo_loadFromLocalStorage_def)
  show ?thesis
    using a b c delete_user_keeps_tasks [of 1 world_sample "[]"] by simp
qed

section \<open>Reloading\<close>

text \<open>The user adapter, constructed over a non-empty persisted collection, gives its next
  entity an id above every persisted id.\<close>

lemma reload_user_adapter_fresh_id:
  assumes "mock_users ls = Items us" and "u \<in> set us"
  shows "user_id u < user_id (fst (mock_createUser now input (MockUserRepository init ls)))"
proof -
  from assms(2) obtain v vs where us: "us = v # vs" by (cases us) auto
  have r: "MockUserRepository init ls =
      (\<lparr>users = us, users_nextId = Math_max (user_id v) (map user_id vs) + 1\<rparr>, ls)"
    by (simp add: MockUserRepository_def user_loadFromLocalStorage_def assms(1) us Let_def)
  have "user_id u \<in> set (user_id v # map user_id vs)"
    using assms(2) us by auto
  then have "user_id u \<le> Math_max (user_id v) (map user_id vs)"
    by (rule Math_max_ge)
  then show ?thesis
    by (simp add: r mock_createUser_def Let_def)
qed

text \<open>The task adapter's \<^verbatim>\<open>loadFromLocalStorage\<close> does not touch the counter: over any
  persisted collection the first entity created gets id 1.\<close>

lemma reload_task_adapter_counter:
  "todos_nextId (fst (MockTodoRepository init ls)) = 1 \<and>
   todo_id (fst (mock_createTodo now input (MockTodoRepository init ls))) = 1"
  by (cases "mock_todos ls")
     (simp_all add: MockTodoRepository_def todo_loadFromLocalStorage_def mock_createTodo_def
       Let_def split: prod.splits)

text \<open>
  C1. The claim is that after a reload over a non-empty persisted collection the next
  created entity has an id above every persisted id, for both simulated adapters. The
  task adapter fails it: constructed over the persisted tasks with ids 1 and 2, it keeps
  its counter at 1, and the task it creates next has id 1, the id of a persisted task;
  the collection then holds two tasks with id 1.
\<close>

theorem reload_task_adapter_reuses_id:
  "mock_todos storage_sample = Items [todo_T1, todo_T2] \<and>
   todo_id (fst (mock_createTodo 3000 input_T (MockTodoRepository [] storage_sample))) =
     todo_id todo_T1 \<and>
   map todo_id (todos (fst (snd (mock_createTodo 3000 input_T
     (MockTodoRepository [] storage_sample))))) = [1, 2, 1]"
  by (simp add: storage_sample_def MockTodoRepository_def todo_loadFromLocalStorage_def
      mock_createTodo_def todo_T1_def todo_T2_def input_T_def Let_def)

section \<open>Patching a task\<close>

text \<open>
  C4, as claimed, fails for the empty title: the input names task 1 and provides the
  empty string as title, and the task returned still has the stored title.
\<close>

theorem update_blank_title_counterexample:
  "upd_title update_blank = Some [] \<and>
   map_option todo_title (fst (mock_updateTodo 3000 update_blank (repo_sample, storage_sample))) =
     Some ''T1'' \<and>
   map_option todo_title (fst (mock_updateTodo 3000 update_blank (repo_sample, storage_sample))) \<noteq>
     upd_title update_blank"
  by (simp add: update_blank_def repo_sample_def mock_updateTodo_def todo_T1_def todo_T2_def
      Let_def)

text \<open>
  C4, amended. When the simulated task adapter has a task for the id of the update input,
  \<^verbatim>\<open>updateTodo\<close> returns the first such task patched: the title is the input's when the
  input provides a non-empty one and the stored title when the input omits it or provides
  the empty string; \<^verbatim>\<open>completed\<close> and \<^verbatim>\<open>userId\<close> are the input's when provided and the
  stored ones when omitted; id and \<^verbatim>\<open>createdAt\<close> are kept and \<^verbatim>\<open>updatedAt\<close> is the time
  of the call. The patched task replaces the old one in the collection, which keeps its
  length and is persisted.
\<close>

theorem updateTodo_patch:
  assumes "find (\<lambda>t. todo_id t = upd_id input) (todos r) = Some old"
  shows "\<exists>r' ls'.
           mock_updateTodo now input (r, ls) =
             (Some \<lparr>todo_id = todo_id old,
                    todo_title = (case upd_title input of
                                    None \<Rightarrow> todo_title old
                                  | Some s \<Rightarrow> if s = [] then todo_title old else s),
                    todo_completed = (case upd_completed input of
                                        None \<Rightarrow> todo_completed old | Some b \<Rightarrow> b),
                    todo_userId = (case upd_userId input of
                                     None \<Rightarrow> todo_userId old | Some u \<Rightarrow> Some u),
                    todo_createdAt = todo_createdAt old,
                    todo_updatedAt = Some now\<rparr>, r', ls') \<and>
           find (\<lambda>t. todo_id t = upd_id input) (todos r') =
             fst (mock_updateTodo now input (r, ls)) \<and>
           length (todos r') = length (todos r) \<and>
           mock_todos ls' = Items (todos r')"
proof -
  let ?p = "\<lambda>t. todo_id t = upd_id input"
  from assms obtain k where k: "findIndex ?p (todos r) = Some k" "k < length (todos r)"
      "todos r ! k = old"
    by (blast dest: findIndex_find)
  from k(1,3) have pold: "todo_id old = upd_id input"
    using findIndex_Some [of ?p "todos r" k] by simp
  let ?new = "old\<lparr>
                 todo_title := (case upd_title input of
                                  None \<Rightarrow> todo_title old
                                | Some s \<Rightarrow> if s = [] then todo_title old else s),
                 todo_completed := (case upd_completed input of
                                      None \<Rightarrow> todo_completed old | Some b \<Rightarrow> b),
                 todo_userId := (case upd_userId input of
                                   None \<Rightarrow> todo_userId old | Some u \<Rightarrow> Some u),
                 todo_updatedAt := Some now\<rparr>"
  let ?r' = "r\<lparr>todos := (todos r)[k := ?new]\<rparr>"
  have run: "mock_updateTodo now input (r, ls) = (Some ?new, ?r', todo_saveToLocalStorage ?r' ls)"
    using k by (simp add: mock_updateTodo_def Let_def)
  have k': "findIndex ?p (todos ?r') = Some k"
    using findIndex_update_same [OF k(1), of ?new] pold by simp
  have f: "find ?p (todos ?r') = Some ?new"
    using findIndex_Some [OF k'] k(2) by simp
  have new: "?new = \<lparr>todo_id = todo_id old,
                    todo_title = (case upd_title input of
                                    None \<Rightarrow> todo_title old
                                  | Some s \<Rightarrow> if s = [] then todo_title old else s),
                    todo_completed = (case upd_completed input of
                                        None \<Rightarrow> todo_completed old | Some b \<Rightarrow> b),
                    todo_userId = (case upd_userId input of
                                     None \<Rightarrow> todo_userId old | Some u \<Rightarrow> Some u),
                    todo_createdAt = todo_createdAt old,
                    todo_updatedAt = Some now\<rparr>"
    by (cases old) simp
  show ?thesis
    using run f new by (simp add: todo_saveToLocalStorage_def)
qed

theorem updateTodo_patch_witness:
  "find (\<lambda>t. todo_id t = upd_id update_T1) (todos repo_sample) = Some todo_T1 \<and>
   (\<exists>r' ls'.
      mock_updateTodo 3000 update_T1 (repo_sample, storage_sample) =
        (Some \<lparr>todo_id = 1, todo_title = ''T1 bis'', todo_completed = False,
               todo_userId = Some 2, todo_createdAt = 1000, todo_updatedAt = Some 3000\<rparr>,
         r', ls') \<and>
      length (todos r') = 2 \<and> mock_todos ls' = Items (todos r'))"
proof -
  have f: "find (\<lambda>t. todo_id t = upd_id update_T1) (todos repo_sample) = Some todo_T1"
    by (simp add: update_T1_def repo_sample_def todo_T1_def)
  have l: "length (todos repo_sample) = 2"
    by (simp add: repo_sample_def)
  show ?thesis
    using f l updateTodo_patch [OF f, of 3000 storage_sample]
    by (auto simp: update_T1_def todo_T1_def)
qed

section \<open>The remote adapters and errors\<close>

text \<open>What the task variant returns, for every response of the transport.\<close>

lemma gql_todo_results:
  "gql_getTodoById new_Date c i =
     Inr (case c i of Data (Some p) \<Rightarrow> Some (todo_of new_Date p) | _ \<Rightarrow> None)"
  "gql_updateTodo new_Date cu input =
     Inr (case cu input of Data (Some p) \<Rightarrow> Some (todo_of new_Date p) | _ \<Rightarrow> None)"
  "gql_deleteTodo cd i = Inr (case cd i of Data f \<Rightarrow> f | _ \<Rightarrow> Some False)"
  "gql_toggleComplete new_Date c i =
     Inr (case c i of Data (Some p) \<Rightarrow> Some (todo_of new_Date p) | _ \<Rightarrow> None)"
  by (simp_all add: gql_getTodoById_def gql_updateTodo_def gql_deleteTodo_def
      gql_toggleComplete_def try_catch_def await_field_def
      split: response.splits option.splits)

text \<open>
  C3, as claimed, fails for the user variant: when the transport rejects the request,
  \<^verbatim>\<open>getUserById\<close> raises the transport's error instead of returning null.
\<close>

theorem gql_getUserById_raises_counterexample:
  "gql_getUserById new_Date_sample client_down 1 = Inl network_error"
  by (simp add: gql_getUserById_def await_field_def client_down_def)

text \<open>
  C3, amended. For every behaviour of the transport, the task variant of the remote
  adapter never raises from \<^verbatim>\<open>getTodoById\<close>, \<^verbatim>\<open>updateTodo\<close>, \<^verbatim>\<open>deleteTodo\<close> and
  \<^verbatim>\<open>toggleComplete\<close>: a response with a payload gives the payload converted (for delete,
  the flag the server sent), anything else, a rejected request included, gives null (for
  delete, false). The user variant's \<^verbatim>\<open>getUserById\<close>, \<^verbatim>\<open>updateUser\<close> and \<^verbatim>\<open>deleteUser\<close>
  raise exactly when the transport does not resolve with data, and then return null only
  for a null payload. \<^verbatim>\<open>create\<close> raises in both variants whenever no entity comes back.
\<close>

theorem gql_error_policy:
  "gql_getTodoById new_Date ct i =
     Inr (case ct i of Data (Some p) \<Rightarrow> Some (todo_of new_Date p) | _ \<Rightarrow> None) \<and>
   gql_updateTodo new_Date ctu input =
     Inr (case ctu input of Data (Some p) \<Rightarrow> Some (todo_of new_Date p) | _ \<Rightarrow> None) \<and>
   gql_deleteTodo ctd i = Inr (case ctd i of Data f \<Rightarrow> f | _ \<Rightarrow> Some False) \<and>
   gql_toggleComplete new_Date ct i =
     Inr (case ct i of Data (Some p) \<Rightarrow> Some (todo_of new_Date p) | _ \<Rightarrow> None) \<and>
   isl (gql_createTodo new_Date ctc cinput) =
     (case ctc cinput of Data (Some p) \<Rightarrow> False | _ \<Rightarrow> True) \<and>
   isl (gql_getUserById new_Date cu k) = (\<not> is_Data (cu k)) \<and>
   isl (gql_updateUser new_Date cuu uinput) = (\<not> is_Data (cuu uinput)) \<and>
   isl (gql_deleteUser cud k) = (\<not> is_Data (cud k)) \<and>
   isl (gql_createUser new_Date cuc ucinput) =
     (case cuc ucinput of Data (Some p) \<Rightarrow> False | _ \<Rightarrow> True)"
proof (intro conjI)
  show "isl (gql_createTodo new_Date ctc cinput) =
      (case ctc cinput of Data (Some p) \<Rightarrow> False | _ \<Rightarrow> True)"
    by (simp add: gql_createTodo_def try_catch_def await_field_def
        split: response.splits option.splits)
  show "isl (gql_getUserById new_Date cu k) = (\<not> is_Data (cu k))"
    by (simp add: gql_getUserById_def await_field_def split: response.splits option.splits)
  show "isl (gql_updateUser new_Date cuu uinput) = (\<not> is_Data (cuu uinput))"
    by (simp add: gql_updateUser_def await_field_def split: response.splits option.splits)
  show "isl (gql_deleteUser cud k) = (\<not> is_Data (cud k))"
    by (simp add: gql_deleteUser_def await_field_def split: response.splits option.splits)
  show "isl (gql_createUser new_Date cuc ucinput) =
      (case cuc ucinput of Data (Some p) \<Rightarrow> False | _ \<Rightarrow> True)"
    by (simp add: gql_createUser_def await_field_def split: response.splits option.splits)
qed (rule gql_todo_results)+

theorem gql_error_policy_witness:
  "gql_getTodoById new_Date_sample client_down ''1'' = Inr None \<and>
   gql_updateTodo new_Date_sample client_down update_T1 = Inr None \<and>
   gql_deleteTodo client_down ''1'' = Inr (Some False) \<and>
   gql_toggleComplete new_Date_sample client_down ''1'' = Inr None \<and>
   isl (gql_createTodo new_Date_sample client_down input_T) \<and>
   isl (gql_getUserById new_Date_sample client_down 1) \<and>
   isl (gql_updateUser new_Date_sample client_down uupdate_missing) \<and>
   isl (gql_deleteUser client_down 1) \<and>
   isl (gql_createUser new_Date_sample client_down input_U)"
  using gql_error_policy [where new_Date = new_Date_sample and ct = client_down
      and i = "''1''" and ctu = client_down and input = update_T1 and ctd = client_down
      and ctc = client_down and cinput = input_T and cu = client_down and k = 1
      and cuu = client_down and uinput = uupdate_missing and cud = client_down
      and cuc = client_down and ucinput = input_U]
  by (simp add: client_down_def)

section \<open>The stores' loading flag\<close>

text \<open>Every action starts by raising the flag.\<close>

lemma start_loading: "todo_isLoading (todo_start st)" "user_isLoading (user_start ust)"
  by (simp_all add: todo_start_def user_start_def)

text \<open>Fetching and creating lower the flag again whatever the repository does; so does
  the user store's \<^verbatim>\<open>getUserById\<close>, also when the repository returns null.\<close>

lemma fetch_create_end_idle:
  "\<not> todo_isLoading (store_fetchTodos fr st)"
  "\<not> todo_isLoading (store_addTodo ar st)"
  "\<not> user_isLoading (store_fetchUsers ufr ust)"
  "\<not> user_isLoading (snd (store_addUser uar ust))"
  "\<not> user_isLoading (snd (store_getUserById gr ust))"
  by (simp_all add: store_fetchTodos_def store_addTodo_def store_fetchUsers_def
      store_addUser_def store_getUserById_def todo_fail_def user_fail_def Let_def
      split: sum.splits)

text \<open>Updating, deleting and toggling lower the flag only inside the branch taken for a
  non-null (true) result and in the error handler: after a null or false result the flag
  is still raised.\<close>

lemma update_delete_toggle_end:
  "todo_isLoading (store_updateTodo r st) = (r = Inr None)"
  "todo_isLoading (store_deleteTodo i dr st) = (dr = Inr False)"
  "todo_isLoading (store_toggleTodoComplete r st) = (r = Inr None)"
  "user_isLoading (snd (store_updateUser ur ust)) = (ur = Inr None)"
  "user_isLoading (store_deleteUser k dr ust) = (dr = Inr False)"
  by (auto simp: store_updateTodo_def store_deleteTodo_def store_toggleTodoComplete_def
      store_updateUser_def store_deleteUser_def todo_fail_def user_fail_def todo_start_def
      user_start_def Let_def split: sum.splits option.splits)

text \<open>
  C2. The claim is that every store action ends with the loading flag lowered, whatever
  the repository returns. The update action of the task store fails it: the simulated
  adapter returns null for an update that names an id it does not have, and the store,
  started idle, is left with the flag raised. The same happens in \<^verbatim>\<open>deleteTodo\<close>,
  \<^verbatim>\<open>toggleTodoComplete\<close>, \<^verbatim>\<open>updateUser\<close> and \<^verbatim>\<open>deleteUser\<close> after a null or false
  result.
\<close>

theorem store_update_unknown_id_stays_loading:
  "\<not> todo_isLoading todoState_init \<and>
   fst (mock_updateTodo 3000 update_missing (repo_sample, storage_sample)) = None \<and>
   todo_isLoading (store_updateTodo
     (Inr (fst (mock_updateTodo 3000 update_missing (repo_sample, storage_sample))))
     todoState_init)"
  by (simp add: todoState_init_def store_updateTodo_def todo_start_def mock_updateTodo_def
      update_missing_def repo_sample_def todo_T1_def todo_T2_def Let_def)

end
